theory Spec2Isabelle
  imports Complex_Main
begin

section \<open>The parallelogram demo of js/app.js\<close>

text \<open>
  The program lets a user click three points on a canvas, draws the parallelogram
  spanned by them together with a circle of the same area, and lets the user drag the
  points.  This theory embeds \<^verbatim>\<open>Point\<close>, \<^verbatim>\<open>Stage\<close> and the event handlers of the
  application closure.

  Conventions of the embedding.
  \<^item> In the model of \<^verbatim>\<open>Point\<close>, \<^verbatim>\<open>Stage\<close> and the handlers a JavaScript number is a
    \<^typ>\<open>real\<close>, and arithmetic, \<^verbatim>\<open>Math.sqrt\<close>, \<^verbatim>\<open>Math.acos\<close> and \<^verbatim>\<open>Math.sin\<close> are the
    exact real functions.  This is the program without rounding.  On whole-number
    coordinates the comparisons of \<^verbatim>\<open>contains\<close>, the fourth corner and the centre are
    computed without rounding by the program as well.  The area is not: there rounding
    can turn the argument of \<^verbatim>\<open>Math.acos\<close> into a number beyond 1, and the result into
    \<^verbatim>\<open>NaN\<close>.  The area computation is therefore modelled a second time, on IEEE
    doubles with every operation rounded (subsection \<open>The area computation on doubles\<close>).
  \<^item> \<^verbatim>\<open>Point\<close> objects are shared between the stage's array and the closure variable
    \<^verbatim>\<open>point\<close>, and dragging mutates them in place.  Objects therefore live in a store
    (\<open>heap\<close>, a list indexed by reference); \<^verbatim>\<open>new Point\<close> appends to it, so every
    reference the program holds is an index inside the store.
  \<^item> The 2D drawing context is a log of the calls made on it, oldest first.
  \<^item> \<^verbatim>\<open>null\<close> is \<open>None\<close>.  A \<^verbatim>\<open>TypeError\<close> (a property read on \<^verbatim>\<open>undefined\<close> or
    \<^verbatim>\<open>null\<close>) makes a method return \<open>None\<close>.
  \<^item> \<^verbatim>\<open>View\<close> only writes text into DOM labels and never touches the stage; it is
    left out, and so is the page navigation.  (\<^verbatim>\<open>View.update\<close> has labels for three
    points only; the handlers call it with at most three points on the stage.)
\<close>

subsection \<open>Point\<close>

record coords =
  x :: real
  y :: real

record point = coords +
  radius :: real

type_synonym ref = nat

type_synonym heap = "point list"

definition Point :: "real \<Rightarrow> real \<Rightarrow> point" where
  "Point x0 y0 = \<lparr>x = x0, y = y0, radius = 5.5\<rparr>"

datatype cmd =
    BeginPath
  | Arc real real real real real bool
  | StrokeStyle string
  | Stroke
  | MoveTo real real
  | LineTo real real
  | ClosePath
  | ClearRect real real real real

definition Point_draw :: "point \<Rightarrow> cmd list \<Rightarrow> cmd list" where
  "Point_draw this c =
     c @ [BeginPath,
          Arc (x this) (y this) (radius this) 0 (2 * pi) False,
          StrokeStyle ''#ff0000'',
          Stroke]"

definition Point_contains :: "point \<Rightarrow> real \<Rightarrow> real \<Rightarrow> bool" where
  "Point_contains this qx qy =
     ((x this - radius this \<le> qx) \<and> (x this + radius this \<ge> qx) \<and>
      (y this - radius this \<le> qy) \<and> (y this + radius this \<ge> qy))"

subsection \<open>Stage\<close>

record canvas =
  canvas_width :: real
  canvas_height :: real
  offsetParent_defined :: bool
  offsetLeft :: real
  offsetTop :: real

record stage =
  ctx :: "cmd list"
  width :: real
  height :: real
  points :: "ref list"
  center :: "coords option"
  area :: "real option"

definition Stage :: "canvas \<Rightarrow> stage" where
  "Stage cv =
     \<lparr>ctx = [], width = canvas_width cv, height = canvas_height cv,
      points = [], center = None, area = None\<rparr>"

text \<open>An array read: \<^verbatim>\<open>undefined\<close> (here \<open>None\<close>) past the end.\<close>

definition array_get :: "'a list \<Rightarrow> nat \<Rightarrow> 'a option" where
  "array_get xs i = (if i < length xs then Some (xs ! i) else None)"

definition Stage__clear :: "stage \<Rightarrow> stage" where
  "Stage__clear this = this\<lparr>ctx := ctx this @ [ClearRect 0 0 (width this) (height this)]\<rparr>"

text \<open>
  The local variables \<^verbatim>\<open>d1\<close>, \<^verbatim>\<open>d2\<close> and \<^verbatim>\<open>a\<close> of \<^verbatim>\<open>_calculateArea\<close>, in exact
  arithmetic.  The test \<^verbatim>\<open>(d1 && d2)\<close> is true when both numbers are non-zero.  In exact
  arithmetic the quotient handed to \<^verbatim>\<open>Math.acos\<close> cannot leave \<open>[-1, 1]\<close>; on the doubles
  of the program it can, see \<open>calculateArea_ieee_vars\<close> below for the same lines with
  every operation rounded.
\<close>

definition calculateArea_vars :: "point \<Rightarrow> point \<Rightarrow> point \<Rightarrow> real \<times> real \<times> real" where
  "calculateArea_vars p1 p2 p3 =
     (let x1 = x p1 - x p2;
          x2 = x p3 - x p2;
          y1 = y p1 - y p2;
          y2 = y p3 - y p2;
          d1 = sqrt (x1 * x1 + y1 * y1);
          d2 = sqrt (x2 * x2 + y2 * y2);
          a = (if d1 \<noteq> 0 \<and> d2 \<noteq> 0
               then arccos ((x1 * x2 + y1 * y2) / (d1 * d2))
               else 0)
      in (d1, d2, a))"

text \<open>The value \<^verbatim>\<open>_calculateArea\<close> assigns to the field \<^verbatim>\<open>area\<close>.\<close>

definition calculateArea_result :: "point \<Rightarrow> point \<Rightarrow> point \<Rightarrow> real" where
  "calculateArea_result p1 p2 p3 =
     (case calculateArea_vars p1 p2 p3 of (d1, d2, a) \<Rightarrow> d1 * d2 * sin a)"

definition Stage__calculateArea :: "heap \<Rightarrow> stage \<Rightarrow> stage option" where
  "Stage__calculateArea h this =
     (case (array_get (points this) 0, array_get (points this) 1, array_get (points this) 2) of
        (Some r1, Some r2, Some r3) \<Rightarrow>
          Some (this\<lparr>area := Some (calculateArea_result (h ! r1) (h ! r2) (h ! r3))\<rparr>)
      | _ \<Rightarrow> None)"

definition Stage__calculate :: "heap \<Rightarrow> stage \<Rightarrow> stage option" where
  "Stage__calculate h this =
     (case (array_get (points this) 0, array_get (points this) 2) of
        (Some r1, Some r2) \<Rightarrow>
          (let p1 = h ! r1;
               p2 = h ! r2
           in Stage__calculateArea h
                (this\<lparr>center := Some \<lparr>x = (x p1 + x p2) / 2, y = (y p1 + y p2) / 2\<rparr>\<rparr>))
      | _ \<Rightarrow> None)"

text \<open>The fourth corner computed by \<^verbatim>\<open>_draw\<close> (its local variable \<^verbatim>\<open>p4\<close>).\<close>

definition draw_p4 :: "point \<Rightarrow> point \<Rightarrow> point \<Rightarrow> coords" where
  "draw_p4 p1 p2 p3 = \<lparr>x = x p3 - (x p2 - x p1), y = y p1 + (y p3 - y p2)\<rparr>"

text \<open>
  The radius computed by \<^verbatim>\<open>_draw\<close> (its local variable \<^verbatim>\<open>r\<close>) from the field
  \<^verbatim>\<open>area\<close>; in the division \<^verbatim>\<open>null\<close> counts as 0.
\<close>

definition draw_r :: "real option \<Rightarrow> real" where
  "draw_r ar = sqrt ((case ar of None \<Rightarrow> 0 | Some v \<Rightarrow> v) / pi)"

text \<open>
  \<^verbatim>\<open>_draw\<close>.  Reading \<^verbatim>\<open>this.center.x\<close> while \<^verbatim>\<open>center\<close> is \<^verbatim>\<open>null\<close> throws after
  the parallelogram has been stroked; the model returns \<open>None\<close> for the whole call.
\<close>

definition Stage__draw :: "heap \<Rightarrow> stage \<Rightarrow> stage option" where
  "Stage__draw h this =
     (case (array_get (points this) 0, array_get (points this) 1, array_get (points this) 2) of
        (Some r1, Some r2, Some r3) \<Rightarrow>
          (let p1 = h ! r1;
               p2 = h ! r2;
               p3 = h ! r3;
               p4 = draw_p4 p1 p2 p3;
               c1 = ctx this @
                    [BeginPath,
                     MoveTo (x p1) (y p1),
                     LineTo (x p2) (y p2),
                     LineTo (x p3) (y p3),
                     LineTo (x p4) (y p4),
                     ClosePath,
                     StrokeStyle ''#0000ff'',
                     Stroke];
               r = draw_r (area this)
           in (case center this of
                 None \<Rightarrow> None
               | Some c \<Rightarrow>
                   Some (this\<lparr>ctx := c1 @
                           [BeginPath,
                            Arc (x c) (y c) r 0 (2 * pi) False,
                            StrokeStyle ''#00ff00'',
                            Stroke]\<rparr>)))
      | _ \<Rightarrow> None)"

definition Stage__check :: "heap \<Rightarrow> stage \<Rightarrow> stage option" where
  "Stage__check h this =
     (if 3 = length (points this)
      then (case Stage__calculate h this of
              None \<Rightarrow> None
            | Some s1 \<Rightarrow> Stage__draw h s1)
      else Some this)"

definition Stage_addPoint :: "heap \<Rightarrow> ref \<Rightarrow> stage \<Rightarrow> stage option" where
  "Stage_addPoint h pt this =
     (let s1 = this\<lparr>points := points this @ [pt]\<rparr>;
          s2 = s1\<lparr>ctx := Point_draw (h ! pt) (ctx s1)\<rparr>
      in Stage__check h s2)"

definition Stage_draw :: "heap \<Rightarrow> stage \<Rightarrow> stage option" where
  "Stage_draw h this =
     (let s1 = Stage__clear this;
          s2 = s1\<lparr>ctx := foldl (\<lambda>c r. Point_draw (h ! r) c) (ctx s1) (points s1)\<rparr>
      in Stage__check h s2)"

definition Stage_reset :: "stage \<Rightarrow> stage" where
  "Stage_reset this = (Stage__clear this)\<lparr>points := [], center := None, area := None\<rparr>"

subsection \<open>The application closure\<close>

text \<open>
  The closure variables \<^verbatim>\<open>canvas\<close>, \<^verbatim>\<open>stage\<close>, \<^verbatim>\<open>point\<close>, \<^verbatim>\<open>dx\<close> and \<^verbatim>\<open>dy\<close>, the
  object store, and the handlers currently attached to the canvas.  Each handler is
  only ever attached to one event type.  \<^verbatim>\<open>dx\<close> and \<^verbatim>\<open>dy\<close> are \<^verbatim>\<open>undefined\<close> until
  \<^verbatim>\<open>_startMove\<close> first assigns them, and are read by \<^verbatim>\<open>_move\<close> only while \<^verbatim>\<open>point\<close>
  is not \<^verbatim>\<open>null\<close>, which \<^verbatim>\<open>_startMove\<close> alone brings about; they start at 0 here.
\<close>

datatype listener = Click_addPoint | Mousedown_startMove | Mouseup_stopMove | Mousemove_move

record event =
  pageX :: real
  pageY :: real

record app =
  canvas :: canvas
  heap :: heap
  stage :: stage
  point :: "ref option"
  dx :: real
  dy :: real
  listeners :: "listener set"

definition getCoords :: "canvas \<Rightarrow> event \<Rightarrow> coords" where
  "getCoords cv e =
     (let x0 = pageX e;
          y0 = pageY e
      in if offsetParent_defined cv
         then \<lparr>x = x0 - offsetLeft cv, y = y0 - offsetTop cv\<rparr>
         else \<lparr>x = x0, y = y0\<rparr>)"

definition app_addPoint :: "event \<Rightarrow> app \<Rightarrow> app option" where
  "app_addPoint e a =
     (let cs = getCoords (canvas a) e;
          pt = length (heap a);
          h1 = heap a @ [Point (x cs) (y cs)]
      in (case Stage_addPoint h1 pt (stage a) of
            None \<Rightarrow> None
          | Some st \<Rightarrow>
              (let a1 = a\<lparr>heap := h1, stage := st\<rparr>
               in Some (if 3 = length (points st)
                        then a1\<lparr>listeners :=
                                 (listeners a1 - {Click_addPoint}) \<union>
                                 {Mousedown_startMove, Mouseup_stopMove, Mousemove_move}\<rparr>
                        else a1))))"

text \<open>The loop of \<^verbatim>\<open>_startMove\<close>, from index \<open>i\<close> down to 0; it has no \<^verbatim>\<open>break\<close>.\<close>

function startMove_loop :: "coords \<Rightarrow> int \<Rightarrow> app \<Rightarrow> app" where
  "startMove_loop cs i a =
     (if i \<ge> 0
      then startMove_loop cs (i - 1)
             (if Point_contains (heap a ! (points (stage a) ! nat i)) (x cs) (y cs)
              then (let pt = points (stage a) ! nat i
                    in a\<lparr>point := Some pt,
                         dx := x cs - x (heap a ! pt),
                         dy := y cs - y (heap a ! pt)\<rparr>)
              else a)
      else a)"
  by pat_completeness auto
termination
  by (relation "measure (\<lambda>(cs, i, a). nat (i + 1))") auto

declare startMove_loop.simps [simp del]

definition app_startMove :: "event \<Rightarrow> app \<Rightarrow> app" where
  "app_startMove e a =
     (let cs = getCoords (canvas a) e;
          len = length (points (stage a))
      in startMove_loop cs (int len - 1) a)"

definition app_stopMove :: "event \<Rightarrow> app \<Rightarrow> app" where
  "app_stopMove e a = a\<lparr>point := None\<rparr>"

definition app_move :: "event \<Rightarrow> app \<Rightarrow> app option" where
  "app_move e a =
     (case point a of
        None \<Rightarrow> Some a
      | Some pt \<Rightarrow>
          (let cs = getCoords (canvas a) e;
               h1 = (heap a)[pt := (heap a ! pt)\<lparr>x := x cs - dx a, y := y cs - dy a\<rparr>]
           in (case Stage_draw h1 (stage a) of
                 None \<Rightarrow> None
               | Some st \<Rightarrow> Some (a\<lparr>heap := h1, stage := st\<rparr>))))"

definition app_reset :: "app \<Rightarrow> app" where
  "app_reset a =
     a\<lparr>stage := Stage_reset (stage a),
       listeners := (listeners a \<union> {Click_addPoint}) -
                    {Mousedown_startMove, Mouseup_stopMove, Mousemove_move}\<rparr>"

definition app_init :: "canvas \<Rightarrow> app" where
  "app_init cv =
     app_reset \<lparr>canvas = cv, heap = [], stage = Stage cv, point = None,
                dx = 0, dy = 0, listeners = {}\<rparr>"

text \<open>Events reaching the page: the four canvas events and a click on the reset button.\<close>

datatype dom_event =
    Click event
  | Mousedown event
  | Mouseup event
  | Mousemove event
  | ResetClick

definition dispatch :: "dom_event \<Rightarrow> app \<Rightarrow> app option" where
  "dispatch ev a =
     (case ev of
        Click e \<Rightarrow> if Click_addPoint \<in> listeners a then app_addPoint e a else Some a
      | Mousedown e \<Rightarrow> if Mousedown_startMove \<in> listeners a then Some (app_startMove e a) else Some a
      | Mouseup e \<Rightarrow> if Mouseup_stopMove \<in> listeners a then Some (app_stopMove e a) else Some a
      | Mousemove e \<Rightarrow> if Mousemove_move \<in> listeners a then app_move e a else Some a
      | ResetClick \<Rightarrow> Some (app_reset a))"

fun run :: "dom_event list \<Rightarrow> app \<Rightarrow> app option" where
  "run [] a = Some a"
| "run (ev # evs) a = (case dispatch ev a of None \<Rightarrow> None | Some a1 \<Rightarrow> run evs a1)"

subsection \<open>The area computation on doubles\<close>

text \<open>
  The values of a JavaScript number: \<^verbatim>\<open>NaN\<close>, the two infinities (\<open>Inf True\<close> is
  \<^verbatim>\<open>+Infinity\<close>) and the finite doubles, each given by the real it denotes.  The two
  zeros are not told apart: in \<^verbatim>\<open>_calculateArea\<close> the only divisor is a product of two
  square roots, which is never \<^verbatim>\<open>-0\<close>, and nothing else there depends on the sign of a
  zero.
\<close>

datatype number = NaN | Inf bool | Num real

text \<open>Rounding a real to the nearest integer, a tie going to the even one.\<close>

definition rne :: "real \<Rightarrow> int" where
  "rne m =
     (let f = \<lfloor>m\<rfloor>
      in if m - of_int f < 1 / 2 then f
         else if m - of_int f > 1 / 2 then f + 1
         else if even f then f else f + 1)"

text \<open>
  Rounding a real to the nearest double (binary64, round to nearest, ties to even): 53
  significant bits, the unit in the last place not below \<open>2 powi (- 1074)\<close>, and
  infinity when the rounded magnitude reaches \<open>2 powi 1024\<close>.
\<close>

definition fl :: "real \<Rightarrow> number" where
  "fl r =
     (if r = 0 then Num 0
      else (let e = max \<lfloor>log 2 \<bar>r\<bar>\<rfloor> (- 1022) - 52;
                v = of_int (rne (r / 2 powi e)) * 2 powi e
            in if \<bar>v\<bar> \<ge> 2 powi 1024 then Inf (r > 0) else Num v))"

text \<open>
  The operators \<^verbatim>\<open>-\<close> (unary), \<^verbatim>\<open>+\<close>, \<^verbatim>\<open>-\<close>, \<^verbatim>\<open>*\<close>, \<^verbatim>\<open>/\<close> and \<^verbatim>\<open>Math.sqrt\<close> of
  IEEE 754: the exact result, rounded.  A zero divisor counts as \<^verbatim>\<open>+0\<close>.
\<close>

fun d_neg :: "number \<Rightarrow> number" where
  "d_neg NaN = NaN"
| "d_neg (Inf s) = Inf (\<not> s)"
| "d_neg (Num a) = Num (- a)"

fun d_add :: "number \<Rightarrow> number \<Rightarrow> number" where
  "d_add (Num a) (Num b) = fl (a + b)"
| "d_add (Inf s) (Inf t) = (if s = t then Inf s else NaN)"
| "d_add (Inf s) (Num b) = Inf s"
| "d_add (Num a) (Inf t) = Inf t"
| "d_add _ _ = NaN"

definition d_sub :: "number \<Rightarrow> number \<Rightarrow> number" where
  "d_sub u v = d_add u (d_neg v)"

fun d_mul :: "number \<Rightarrow> number \<Rightarrow> number" where
  "d_mul (Num a) (Num b) = fl (a * b)"
| "d_mul (Inf s) (Inf t) = Inf (s = t)"
| "d_mul (Inf s) (Num b) = (if b = 0 then NaN else Inf (s = (b > 0)))"
| "d_mul (Num a) (Inf t) = (if a = 0 then NaN else Inf ((a > 0) = t))"
| "d_mul _ _ = NaN"

fun d_div :: "number \<Rightarrow> number \<Rightarrow> number" where
  "d_div (Num a) (Num b) =
     (if b = 0 then (if a = 0 then NaN else Inf (a > 0)) else fl (a / b))"
| "d_div (Inf s) (Num b) = Inf (s = (b \<ge> 0))"
| "d_div (Num a) (Inf t) = Num 0"
| "d_div _ _ = NaN"

fun d_sqrt :: "number \<Rightarrow> number" where
  "d_sqrt (Num a) = (if a < 0 then NaN else fl (sqrt a))"
| "d_sqrt (Inf s) = (if s then Inf True else NaN)"
| "d_sqrt NaN = NaN"

text \<open>The truth value of a number in a condition: false for 0 and \<^verbatim>\<open>NaN\<close>.\<close>

fun truthy :: "number \<Rightarrow> bool" where
  "truthy (Num a) = (a \<noteq> 0)"
| "truthy (Inf s) = True"
| "truthy NaN = False"

text \<open>
  \<^verbatim>\<open>Math.acos\<close> and \<^verbatim>\<open>Math.sin\<close>.  ECMAScript fixes where they return \<^verbatim>\<open>NaN\<close>:
  \<^verbatim>\<open>Math.acos\<close> for \<^verbatim>\<open>NaN\<close> and for every argument greater than 1 or less than -1,
  \<^verbatim>\<open>Math.sin\<close> for \<^verbatim>\<open>NaN\<close> and the infinities.  Elsewhere the result is the engine's
  approximation, which is a parameter here (\<open>ac\<close>, \<open>sn\<close>).
\<close>

fun Math_acos :: "(real \<Rightarrow> real) \<Rightarrow> number \<Rightarrow> number" where
  "Math_acos ac (Num q) = (if q > 1 \<or> q < - 1 then NaN else Num (ac q))"
| "Math_acos ac _ = NaN"

fun Math_sin :: "(real \<Rightarrow> real) \<Rightarrow> number \<Rightarrow> number" where
  "Math_sin sn (Num a) = Num (sn a)"
| "Math_sin sn _ = NaN"

text \<open>\<^verbatim>\<open>Math.PI\<close>, the double nearest to \<open>\<pi>\<close> (3.141592653589793).\<close>

definition Math_PI :: real where
  "Math_PI = 7074237752028440 * 2 powi (- 51)"

text \<open>
  Lines 137 to 148 of \<^verbatim>\<open>_calculateArea\<close> on doubles: the local variables \<^verbatim>\<open>d1\<close>,
  \<^verbatim>\<open>d2\<close> and \<^verbatim>\<open>a\<close>, and the value assigned to \<^verbatim>\<open>area\<close>.  The coordinates of the
  points are doubles already.
\<close>

definition calculateArea_ieee_vars ::
  "(real \<Rightarrow> real) \<Rightarrow> point \<Rightarrow> point \<Rightarrow> point \<Rightarrow> number \<times> number \<times> number" where
  "calculateArea_ieee_vars ac p1 p2 p3 =
     (let x1 = d_sub (Num (x p1)) (Num (x p2));
          x2 = d_sub (Num (x p3)) (Num (x p2));
          y1 = d_sub (Num (y p1)) (Num (y p2));
          y2 = d_sub (Num (y p3)) (Num (y p2));
          d1 = d_sqrt (d_add (d_mul x1 x1) (d_mul y1 y1));
          d2 = d_sqrt (d_add (d_mul x2 x2) (d_mul y2 y2));
          a = (if truthy d1 \<and> truthy d2
               then Math_acos ac (d_div (d_add (d_mul x1 x2) (d_mul y1 y2)) (d_mul d1 d2))
               else Num 0)
      in (d1, d2, a))"

definition calculateArea_ieee ::
  "(real \<Rightarrow> real) \<Rightarrow> (real \<Rightarrow> real) \<Rightarrow> point \<Rightarrow> point \<Rightarrow> point \<Rightarrow> number" where
  "calculateArea_ieee ac sn p1 p2 p3 =
     (case calculateArea_ieee_vars ac p1 p2 p3 of
        (d1, d2, a) \<Rightarrow> d_mul (d_mul d1 d2) (Math_sin sn a))"

text \<open>The radius of \<^verbatim>\<open>_draw\<close> on doubles, \<^verbatim>\<open>Math.sqrt(this.area / Math.PI)\<close>.\<close>

definition draw_r_ieee :: "number \<Rightarrow> number" where
  "draw_r_ieee ar = d_sqrt (d_div ar (Num Math_PI))"

subsection \<open>Derived notions used in the statements\<close>

text \<open>
  The calls \<^verbatim>\<open>_calculate\<close> followed by \<^verbatim>\<open>_draw\<close> make on the context when the
  first three references of \<open>ps\<close> are read from the store \<open>h\<close>: the parallelogram
  path, then the circle.
\<close>

definition shapes :: "heap \<Rightarrow> ref list \<Rightarrow> cmd list" where
  "shapes h ps =
     [BeginPath,
      MoveTo (x (h ! (ps ! 0))) (y (h ! (ps ! 0))),
      LineTo (x (h ! (ps ! 1))) (y (h ! (ps ! 1))),
      LineTo (x (h ! (ps ! 2))) (y (h ! (ps ! 2))),
      LineTo (x (draw_p4 (h ! (ps ! 0)) (h ! (ps ! 1)) (h ! (ps ! 2))))
             (y (draw_p4 (h ! (ps ! 0)) (h ! (ps ! 1)) (h ! (ps ! 2)))),
      ClosePath,
      StrokeStyle ''#0000ff'',
      Stroke,
      BeginPath,
      Arc ((x (h ! (ps ! 0)) + x (h ! (ps ! 2))) / 2) ((y (h ! (ps ! 0)) + y (h ! (ps ! 2))) / 2)
          (draw_r (Some (calculateArea_result (h ! (ps ! 0)) (h ! (ps ! 1)) (h ! (ps ! 2)))))
          0 (2 * pi) False,
      StrokeStyle ''#00ff00'',
      Stroke]"

text \<open>The calls \<^verbatim>\<open>Point.draw\<close> makes, and all the calls of one \<^verbatim>\<open>Stage.draw\<close> on three points.\<close>

definition point_cmds :: "point \<Rightarrow> cmd list" where
  "point_cmds p =
     [BeginPath, Arc (x p) (y p) (radius p) 0 (2 * pi) False, StrokeStyle ''#ff0000'', Stroke]"

definition redraw_cmds :: "heap \<Rightarrow> stage \<Rightarrow> cmd list" where
  "redraw_cmds h s =
     [ClearRect 0 0 (width s) (height s)] @
     concat (map (\<lambda>r. point_cmds (h ! r)) (points s)) @
     shapes h (points s)"

text \<open>
  For the loop of \<^verbatim>\<open>_startMove\<close>: whether the point at index \<open>j\<close> of the stage
  contains the pointer, and the assignments the loop body makes for that index.
\<close>

definition hit :: "app \<Rightarrow> coords \<Rightarrow> nat \<Rightarrow> bool" where
  "hit a cs j = Point_contains (heap a ! (points (stage a) ! j)) (x cs) (y cs)"

definition grab :: "app \<Rightarrow> coords \<Rightarrow> nat \<Rightarrow> app" where
  "grab a cs j =
     a\<lparr>point := Some (points (stage a) ! j),
       dx := x cs - x (heap a ! (points (stage a) ! j)),
       dy := y cs - y (heap a ! (points (stage a) ! j))\<rparr>"

text \<open>
  Plane geometry for the parallelogram property: the vector from one corner to the
  next, parallelism of two vectors (vanishing cross product) and the Euclidean length.
\<close>

definition side :: "'a coords_scheme \<Rightarrow> 'b coords_scheme \<Rightarrow> real \<times> real" where
  "side p q = (x q - x p, y q - y p)"

definition parallel :: "real \<times> real \<Rightarrow> real \<times> real \<Rightarrow> bool" where
  "parallel v w = (fst v * snd w - snd v * fst w = 0)"

definition side_length :: "real \<times> real \<Rightarrow> real" where
  "side_length v = sqrt (fst v * fst v + snd v * snd v)"

text \<open>Two points at the same place.\<close>

definition coincide :: "point \<Rightarrow> point \<Rightarrow> bool" where
  "coincide p q = (x p = x q \<and> y p = y q)"

subsection \<open>Concrete sessions\<close>

text \<open>
  A canvas placed at page offset (8, 60), and the event whose canvas-local
  coordinates are \<open>(cx, cy)\<close>.
\<close>

definition canvas0 :: canvas where
  "canvas0 =
     \<lparr>canvas_width = 600, canvas_height = 400, offsetParent_defined = True,
      offsetLeft = 8, offsetTop = 60\<rparr>"

definition pointer :: "real \<Rightarrow> real \<Rightarrow> event" where
  "pointer cx cy = \<lparr>pageX = cx + offsetLeft canvas0, pageY = cy + offsetTop canvas0\<rparr>"

text \<open>The three clicks of the specification's scenario: (0,0), (10,0), (10,10).\<close>

definition placed3 :: "app option" where
  "placed3 =
     run [Click (pointer 0 0), Click (pointer 10 0), Click (pointer 10 10)] (app_init canvas0)"

text \<open>What has been drawn by then.\<close>

definition placed3_ctx :: "cmd list" where
  "placed3_ctx =
     [ClearRect 0 0 600 400,
      BeginPath, Arc 0 0 5.5 0 (2 * pi) False, StrokeStyle ''#ff0000'', Stroke,
      BeginPath, Arc 10 0 5.5 0 (2 * pi) False, StrokeStyle ''#ff0000'', Stroke,
      BeginPath, Arc 10 10 5.5 0 (2 * pi) False, StrokeStyle ''#ff0000'', Stroke,
      BeginPath, MoveTo 0 0, LineTo 10 0, LineTo 10 10, LineTo 0 10, ClosePath,
      StrokeStyle ''#0000ff'', Stroke,
      BeginPath, Arc 5 5 (sqrt (100 / pi)) 0 (2 * pi) False, StrokeStyle ''#00ff00'', Stroke]"

text \<open>The same, followed by pressing the button on (10,0) and moving to (20,0).\<close>

definition dragged :: "app option" where
  "dragged =
     run [Click (pointer 0 0), Click (pointer 10 0), Click (pointer 10 10),
          Mousedown (pointer 10 0), Mousemove (pointer 20 0)] (app_init canvas0)"

text \<open>
  Three points whose hit squares overlap, placed at (0,0), (3,0) and (6,0), and the
  button pressed on (3,0).
\<close>

definition overlapping3 :: "app option" where
  "overlapping3 =
     run [Click (pointer 0 0), Click (pointer 3 0), Click (pointer 6 0)] (app_init canvas0)"

definition pressed_on_overlap :: "app option" where
  "pressed_on_overlap =
     run [Click (pointer 0 0), Click (pointer 3 0), Click (pointer 6 0),
          Mousedown (pointer 3 0)] (app_init canvas0)"

text \<open>A complete stage over the store of the scenario, and a fourth point (3,4).\<close>

definition store4 :: heap where
  "store4 = [Point 0 0, Point 10 0, Point 10 10, Point 3 4]"

definition complete_stage :: stage where
  "complete_stage =
     \<lparr>ctx = [], width = 600, height = 400, points = [0, 1, 2],
      center = Some \<lparr>x = 5, y = 5\<rparr>, area = Some 100\<rparr>"

text \<open>
  A stage holding three references with nothing computed yet, and a store in which the
  first two points coincide.
\<close>

definition three_refs :: stage where
  "three_refs =
     \<lparr>ctx = [], width = 600, height = 400, points = [0, 1, 2], center = None, area = None\<rparr>"

definition degenerate_store :: heap where
  "degenerate_store = [Point 1 2, Point 1 2, Point 5 5]"

section \<open>Auxiliary facts\<close>

subsection \<open>Array reads\<close>

lemma array_get_Some: "i < length xs \<Longrightarrow> array_get xs i = Some (xs ! i)"
  by (simp add: array_get_def)

lemma array_get_None: "length xs \<le> i \<Longrightarrow> array_get xs i = None"
  by (simp add: array_get_def)

subsection \<open>The area formula\<close>

lemma lagrange2:
  fixes a b c d :: real
  shows "(a * a + b * b) * (c * c + d * d) - (a * c + b * d)\<^sup>2 = (a * d - b * c)\<^sup>2"
  by (simp add: power2_eq_square algebra_simps)

lemma dot_over_norms_bounded:
  fixes a b c d :: real
  assumes "sqrt (a * a + b * b) \<noteq> 0" "sqrt (c * c + d * d) \<noteq> 0"
  shows "\<bar>(a * c + b * d) / (sqrt (a * a + b * b) * sqrt (c * c + d * d))\<bar> \<le> 1"
proof -
  let ?n = "sqrt (a * a + b * b) * sqrt (c * c + d * d)"
  have npos: "0 < ?n" using assms
    by (metis mult_pos_pos order_less_le real_sqrt_ge_zero sum_squares_ge_zero)
  have "(a * c + b * d)\<^sup>2 \<le> (a * a + b * b) * (c * c + d * d)"
    using lagrange2 [of a b c d] zero_le_power2 [of "a * d - b * c"] by linarith
  also have "\<dots> = ?n\<^sup>2"
    by (simp add: power_mult_distrib)
  finally have "\<bar>a * c + b * d\<bar> \<le> \<bar>?n\<bar>"
    by (simp only: abs_le_square_iff)
  then have "\<bar>a * c + b * d\<bar> \<le> ?n"
    using npos by linarith
  then show ?thesis using npos by (simp add: abs_mult)
qed

lemma scale_one_minus_square:
  fixes n u :: real
  assumes "n \<noteq> 0"
  shows "n\<^sup>2 * (1 - (u / n)\<^sup>2) = n\<^sup>2 - u\<^sup>2"
  using assms by (simp add: power_divide right_diff_distrib)

lemma calculateArea_result_cross:
  "calculateArea_result p1 p2 p3 =
     \<bar>(x p1 - x p2) * (y p3 - y p2) - (y p1 - y p2) * (x p3 - x p2)\<bar>"
proof -
  define a where "a = x p1 - x p2"
  define b where "b = y p1 - y p2"
  define c where "c = x p3 - x p2"
  define d where "d = y p3 - y p2"
  let ?d1 = "sqrt (a * a + b * b)" and ?d2 = "sqrt (c * c + d * d)"
  show ?thesis
  proof (cases "?d1 \<noteq> 0 \<and> ?d2 \<noteq> 0")
    case True
    let ?q = "(a * c + b * d) / (?d1 * ?d2)"
    have bnd: "\<bar>?q\<bar> \<le> 1" using True dot_over_norms_bounded by blast
    have n0: "0 \<le> ?d1 * ?d2" by simp
    have nsq: "(?d1 * ?d2)\<^sup>2 = (a * a + b * b) * (c * c + d * d)"
      by (simp add: power_mult_distrib)
    have "?d1 * ?d2 * sin (arccos ?q) = ?d1 * ?d2 * sqrt (1 - ?q\<^sup>2)"
      using bnd by (simp add: sin_arccos_abs)
    also have "\<dots> = sqrt ((?d1 * ?d2)\<^sup>2 * (1 - ?q\<^sup>2))"
      using n0 by (simp add: real_sqrt_mult del: real_sqrt_mult_self)
    also have "(?d1 * ?d2)\<^sup>2 * (1 - ?q\<^sup>2) = (?d1 * ?d2)\<^sup>2 - (a * c + b * d)\<^sup>2"
      using True by (intro scale_one_minus_square) simp
    also have "\<dots> = (a * d - b * c)\<^sup>2"
      using lagrange2 [of a b c d] nsq by simp
    finally have "?d1 * ?d2 * sin (arccos ?q) = \<bar>a * d - b * c\<bar>" by simp
    then show ?thesis using True
      by (simp add: calculateArea_result_def calculateArea_vars_def Let_def a_def b_def c_def d_def)
  next
    case False
    then have "(a = 0 \<and> b = 0) \<or> (c = 0 \<and> d = 0)"
      by (auto simp: real_sqrt_eq_zero_cancel_iff sum_squares_eq_zero_iff)
    then have "\<bar>a * d - b * c\<bar> = 0" by auto
    moreover have "calculateArea_result p1 p2 p3 = 0"
      using False
      by (auto simp add: calculateArea_result_def calculateArea_vars_def Let_def a_def b_def c_def d_def)
    ultimately show ?thesis by (simp add: a_def b_def c_def d_def)
  qed
qed

subsection \<open>The methods of Stage on three points\<close>

lemma array_get_3:
  assumes "3 \<le> length xs"
  shows "array_get xs 0 = Some (xs ! 0)" and "array_get xs (Suc 0) = Some (xs ! Suc 0)"
    and "array_get xs 2 = Some (xs ! 2)"
  using assms by (auto simp: array_get_def)

lemma Stage__calculateArea_eq:
  assumes "3 \<le> length (points s)"
  shows "Stage__calculateArea h s =
           Some (s\<lparr>area := Some (calculateArea_result (h ! (points s ! 0)) (h ! (points s ! 1))
                                   (h ! (points s ! 2)))\<rparr>)"
  using assms by (simp add: Stage__calculateArea_def array_get_3)

lemma Stage__calculate_eq:
  assumes "3 \<le> length (points s)"
  shows "Stage__calculate h s =
           Some (s\<lparr>center := Some \<lparr>x = (x (h ! (points s ! 0)) + x (h ! (points s ! 2))) / 2,
                                    y = (y (h ! (points s ! 0)) + y (h ! (points s ! 2))) / 2\<rparr>,
                   area := Some (calculateArea_result (h ! (points s ! 0)) (h ! (points s ! 1))
                                   (h ! (points s ! 2)))\<rparr>)"
  using assms by (simp add: Stage__calculate_def Stage__calculateArea_eq array_get_3 Let_def)

lemma Stage__draw_eq:
  assumes "3 \<le> length (points s)" and "center s = Some c"
  shows "Stage__draw h s =
           Some (s\<lparr>ctx := ctx s @
                   [BeginPath,
                    MoveTo (x (h ! (points s ! 0))) (y (h ! (points s ! 0))),
                    LineTo (x (h ! (points s ! 1))) (y (h ! (points s ! 1))),
                    LineTo (x (h ! (points s ! 2))) (y (h ! (points s ! 2))),
                    LineTo (x (draw_p4 (h ! (points s ! 0)) (h ! (points s ! 1)) (h ! (points s ! 2))))
                           (y (draw_p4 (h ! (points s ! 0)) (h ! (points s ! 1)) (h ! (points s ! 2)))),
                    ClosePath,
                    StrokeStyle ''#0000ff'',
                    Stroke,
                    BeginPath,
                    Arc (x c) (y c) (draw_r (area s)) 0 (2 * pi) False,
                    StrokeStyle ''#00ff00'',
                    Stroke]\<rparr>)"
  using assms by (simp add: Stage__draw_def array_get_3 Let_def)

lemma Stage__check_3:
  assumes "length (points s) = 3"
  shows "Stage__check h s =
           Some (s\<lparr>ctx := ctx s @ shapes h (points s),
                   center := Some \<lparr>x = (x (h ! (points s ! 0)) + x (h ! (points s ! 2))) / 2,
                                    y = (y (h ! (points s ! 0)) + y (h ! (points s ! 2))) / 2\<rparr>,
                   area := Some (calculateArea_result (h ! (points s ! 0)) (h ! (points s ! 1))
                                   (h ! (points s ! 2)))\<rparr>)"
  using assms
  by (simp add: Stage__check_def Stage__calculate_eq Stage__draw_eq shapes_def)

lemma Stage__check_other:
  assumes "length (points s) \<noteq> 3"
  shows "Stage__check h s = Some s"
  using assms by (simp add: Stage__check_def)

lemma Stage_addPoint_check:
  "Stage_addPoint h pt s =
     Stage__check h (s\<lparr>points := points s @ [pt], ctx := Point_draw (h ! pt) (ctx s)\<rparr>)"
  by (simp add: Stage_addPoint_def Let_def)

lemma Point_draw_cmds: "Point_draw p c = c @ point_cmds p"
  by (simp add: Point_draw_def point_cmds_def)

lemma foldl_Point_draw:
  "foldl (\<lambda>c r. Point_draw (h ! r) c) c0 ps = c0 @ concat (map (\<lambda>r. point_cmds (h ! r)) ps)"
  by (induction ps arbitrary: c0) (simp_all add: Point_draw_cmds)

lemma Stage_draw_3:
  assumes "length (points s) = 3"
  shows "Stage_draw h s =
           Some (s\<lparr>ctx := ctx s @ redraw_cmds h s,
                   center := Some \<lparr>x = (x (h ! (points s ! 0)) + x (h ! (points s ! 2))) / 2,
                                    y = (y (h ! (points s ! 0)) + y (h ! (points s ! 2))) / 2\<rparr>,
                   area := Some (calculateArea_result (h ! (points s ! 0)) (h ! (points s ! 1))
                                   (h ! (points s ! 2)))\<rparr>)"
  using assms
  by (simp add: Stage_draw_def Stage__clear_def Let_def foldl_Point_draw Stage__check_3
      redraw_cmds_def)

subsection \<open>The loop of the mouse-down handler\<close>

lemma startMove_loop_step:
  "startMove_loop cs i a =
     (if i \<ge> 0 then startMove_loop cs (i - 1) (if hit a cs (nat i) then grab a cs (nat i) else a)
      else a)"
  by (subst startMove_loop.simps) (simp add: hit_def grab_def Let_def)

lemma hit_grab [simp]: "hit (grab a cs j) cs' k = hit a cs' k"
  by (simp add: hit_def grab_def)

lemma grab_grab [simp]: "grab (grab a cs j) cs k = grab a cs k"
  by (simp add: grab_def)

lemma startMove_loop_no_hit:
  "(\<forall>j<n. \<not> hit a cs j) \<Longrightarrow> startMove_loop cs (int n - 1) a = a"
proof (induction n)
  case 0
  show ?case by (subst startMove_loop_step) simp
next
  case (Suc n)
  then have "startMove_loop cs (int n - 1) a = a" and "\<not> hit a cs n" by simp_all
  then show ?case by (subst startMove_loop_step) simp
qed

lemma startMove_loop_first_hit:
  "k < n \<Longrightarrow> hit a cs k \<Longrightarrow> (\<forall>j<k. \<not> hit a cs j) \<Longrightarrow>
   startMove_loop cs (int n - 1) a = grab a cs k"
proof (induction n arbitrary: a)
  case 0
  then show ?case by simp
next
  case (Suc n)
  let ?a' = "if hit a cs n then grab a cs n else a"
  have step: "startMove_loop cs (int (Suc n) - 1) a = startMove_loop cs (int n - 1) ?a'"
    by (subst startMove_loop_step) simp
  show ?case
  proof (cases "k = n")
    case True
    have "startMove_loop cs (int n - 1) (grab a cs n) = grab a cs n"
      using Suc.prems True by (intro startMove_loop_no_hit) simp
    with step True Suc.prems show ?thesis by simp
  next
    case False
    with Suc.prems have "k < n" by simp
    moreover have "hit ?a' cs k" using Suc.prems by simp
    moreover have "\<forall>j<k. \<not> hit ?a' cs j" using Suc.prems by simp
    ultimately have "startMove_loop cs (int n - 1) ?a' = grab ?a' cs k"
      by (rule Suc.IH)
    also have "\<dots> = grab a cs k" by simp
    finally show ?thesis using step by simp
  qed
qed

lemma app_startMove_first_added_wins:
  assumes "k < length (points (stage a))"
    and "hit a (getCoords (canvas a) e) k"
    and "\<forall>j<k. \<not> hit a (getCoords (canvas a) e) j"
  shows "app_startMove e a = grab a (getCoords (canvas a) e) k"
proof -
  have "startMove_loop (getCoords (canvas a) e) (int (length (points (stage a))) - 1) a =
          grab a (getCoords (canvas a) e) k"
    using assms by (intro startMove_loop_first_hit) auto
  then show ?thesis by (simp add: app_startMove_def Let_def)
qed

lemma app_startMove_miss:
  assumes "\<forall>j<length (points (stage a)). \<not> hit a (getCoords (canvas a) e) j"
  shows "app_startMove e a = a"
proof -
  have "startMove_loop (getCoords (canvas a) e) (int (length (points (stage a))) - 1) a = a"
    using assms by (intro startMove_loop_no_hit) auto
  then show ?thesis by (simp add: app_startMove_def Let_def)
qed

subsection \<open>Handlers and event sequences\<close>

lemma run_append:
  "run (evs @ evs') a = (case run evs a of None \<Rightarrow> None | Some a1 \<Rightarrow> run evs' a1)"
  by (induction evs arbitrary: a) (auto split: option.splits)

lemma app_move_drag:
  assumes "point a = Some pt" and "length (points (stage a)) = 3"
    and "h1 = (heap a)[pt := (heap a ! pt)\<lparr>x := x (getCoords (canvas a) e) - dx a,
                                           y := y (getCoords (canvas a) e) - dy a\<rparr>]"
  shows "app_move e a =
           Some (a\<lparr>heap := h1,
                   stage := (stage a)\<lparr>ctx := ctx (stage a) @ redraw_cmds h1 (stage a),
                     center := Some \<lparr>x = (x (h1 ! (points (stage a) ! 0)) +
                                           x (h1 ! (points (stage a) ! 2))) / 2,
                                      y = (y (h1 ! (points (stage a) ! 0)) +
                                           y (h1 ! (points (stage a) ! 2))) / 2\<rparr>,
                     area := Some (calculateArea_result (h1 ! (points (stage a) ! 0))
                                     (h1 ! (points (stage a) ! 1)) (h1 ! (points (stage a) ! 2)))\<rparr>\<rparr>)"
  using assms by (simp add: app_move_def Let_def Stage_draw_3)

lemma app_move_idle: "point a = None \<Longrightarrow> app_move e a = Some a"
  by (simp add: app_move_def)

subsection \<open>The concrete sessions, evaluated\<close>

lemma app_init_canvas0:
  "app_init canvas0 =
     \<lparr>canvas = canvas0, heap = [],
      stage = \<lparr>ctx = [ClearRect 0 0 600 400], width = 600, height = 400, points = [],
               center = None, area = None\<rparr>,
      point = None, dx = 0, dy = 0, listeners = {Click_addPoint}\<rparr>"
  by (simp add: app_init_def app_reset_def Stage_reset_def Stage__clear_def Stage_def canvas0_def)

lemma getCoords_pointer: "getCoords canvas0 (pointer cx cy) = \<lparr>x = cx, y = cy\<rparr>"
  by (simp add: getCoords_def pointer_def canvas0_def Let_def)

lemma placed3_eval:
  "placed3 =
     Some \<lparr>canvas = canvas0, heap = [Point 0 0, Point 10 0, Point 10 10],
           stage = \<lparr>ctx = placed3_ctx, width = 600, height = 400, points = [0, 1, 2],
                    center = Some \<lparr>x = 5, y = 5\<rparr>, area = Some 100\<rparr>,
           point = None, dx = 0, dy = 0,
           listeners = {Mousedown_startMove, Mouseup_stopMove, Mousemove_move}\<rparr>"
  by (simp add: placed3_def app_init_canvas0 dispatch_def app_addPoint_def getCoords_pointer
      Stage_addPoint_check Stage__check_3 Stage__check_other Let_def Point_draw_def shapes_def
      draw_p4_def draw_r_def calculateArea_result_cross placed3_ctx_def Point_def)

lemma dragged_eval:
  "dragged =
     Some \<lparr>canvas = canvas0, heap = [Point 0 0, Point 20 0, Point 10 10],
           stage = \<lparr>ctx = placed3_ctx @
                      redraw_cmds [Point 0 0, Point 20 0, Point 10 10]
                        \<lparr>ctx = placed3_ctx, width = 600, height = 400, points = [0, 1, 2],
                         center = Some \<lparr>x = 5, y = 5\<rparr>, area = Some 100\<rparr>,
                    width = 600, height = 400, points = [0, 1, 2],
                    center = Some \<lparr>x = 5, y = 5\<rparr>, area = Some 200\<rparr>,
           point = Some 1, dx = 0, dy = 0,
           listeners = {Mousedown_startMove, Mouseup_stopMove, Mousemove_move}\<rparr>"
proof -
  have "dragged =
          (case placed3 of None \<Rightarrow> None
           | Some a \<Rightarrow> run [Mousedown (pointer 10 0), Mousemove (pointer 20 0)] a)"
    using run_append [of "[Click (pointer 0 0), Click (pointer 10 0), Click (pointer 10 10)]"
        "[Mousedown (pointer 10 0), Mousemove (pointer 20 0)]" "app_init canvas0"]
    by (simp add: dragged_def placed3_def)
  then show ?thesis
    by (simp add: placed3_eval dispatch_def app_startMove_def getCoords_pointer Let_def
        startMove_loop.simps Point_contains_def Point_def app_move_def Stage_draw_3
        calculateArea_result_cross)
qed

lemma pressed_on_overlap_eval:
  "\<exists>c. pressed_on_overlap =
     Some \<lparr>canvas = canvas0, heap = [Point 0 0, Point 3 0, Point 6 0],
           stage = \<lparr>ctx = c, width = 600, height = 400, points = [0, 1, 2],
                    center = Some \<lparr>x = 3, y = 0\<rparr>, area = Some 0\<rparr>,
           point = Some 0, dx = 3, dy = 0,
           listeners = {Mousedown_startMove, Mouseup_stopMove, Mousemove_move}\<rparr>"
  by (simp add: pressed_on_overlap_def app_init_canvas0 dispatch_def app_addPoint_def
      getCoords_pointer Stage_addPoint_check Stage__check_3 Stage__check_other Let_def
      calculateArea_result_cross Point_def app_startMove_def startMove_loop.simps
      Point_contains_def)

subsection \<open>Rounding to doubles\<close>

lemma rne_eq:
  assumes "\<bar>m - of_int n\<bar> < 1 / 2"
  shows "rne m = n"
proof (cases "of_int n \<le> m")
  case True
  with assms have "m < of_int n + 1" by linarith
  with True have "\<lfloor>m\<rfloor> = n" by (rule floor_unique)
  with assms True show ?thesis by (simp add: rne_def Let_def)
next
  case False
  with assms have a: "of_int (n - 1) \<le> m" and b: "m < of_int (n - 1) + 1"
    and c: "m - of_int (n - 1) > 1 / 2"
    by simp_all
  from a b have f: "\<lfloor>m\<rfloor> = n - 1" by (rule floor_unique)
  from c show ?thesis by (simp add: rne_def Let_def f)
qed

lemma fl_eq:
  assumes lo: "2 powi (e + 52) \<le> \<bar>r\<bar>" and hi: "\<bar>r\<bar> < 2 powi (e + 53)"
    and normal: "- 1074 \<le> e"
    and near: "\<bar>r / 2 powi e - of_int n\<bar> < 1 / 2"
    and finite: "\<bar>of_int n * 2 powi e\<bar> < (2::real) powi 1024"
  shows "fl r = Num (of_int n * 2 powi e)"
proof -
  have pos: "0 < \<bar>r\<bar>"
    using lo by (smt (verit) zero_less_power_int)
  then have r0: "r \<noteq> 0" by simp
  have p1: "2 powr real_of_int (e + 52) = 2 powi (e + 52)"
    by (rule powr_real_of_int') simp_all
  have "2 powr real_of_int (e + 53) = 2 powi (e + 53)"
    by (rule powr_real_of_int') simp_all
  then have p2: "2 powr real_of_int (e + 52 + 1) = 2 powi (e + 53)"
    by (simp only: add.assoc) simp
  have "2 powr real_of_int (e + 52) \<le> \<bar>r\<bar> \<and> \<bar>r\<bar> < 2 powr real_of_int (e + 52 + 1)"
    using lo hi by (simp only: p1 p2)
  with pos have "\<lfloor>log 2 \<bar>r\<bar>\<rfloor> = e + 52"
    by (subst floor_log_eq_powr_iff) simp_all
  then have e: "max \<lfloor>log 2 \<bar>r\<bar>\<rfloor> (- 1022) - 52 = e" using normal by simp
  have "rne (r / 2 powi e) = n" using near by (rule rne_eq)
  then show ?thesis using r0 e finite by (simp add: fl_def Let_def)
qed

text \<open>
  Checks of the rounding: ties go to the even neighbour, and \<open>fl\<close> gives the doubles
  nearest to 0.1 (\<^verbatim>\<open>0x1.999999999999ap-4\<close>) and to 1/3 (\<^verbatim>\<open>0x1.5555555555555p-2\<close>).
\<close>

lemma rne_ties: "rne (5 / 2) = 2" "rne (7 / 2) = 4" "rne (- 5 / 2) = - 2" "rne (1 / 2) = 0"
proof -
  have f: "\<lfloor>5 / 2 :: real\<rfloor> = 2" "\<lfloor>7 / 2 :: real\<rfloor> = 3" "\<lfloor>- 5 / 2 :: real\<rfloor> = - 3"
    "\<lfloor>1 / 2 :: real\<rfloor> = 0"
    by (simp_all add: floor_eq_iff)
  show "rne (5 / 2) = 2" "rne (7 / 2) = 4" "rne (- 5 / 2) = - 2" "rne (1 / 2) = 0"
    using f by (simp_all add: rne_def Let_def)
qed

lemma fl_tenth: "fl (1 / 10) = Num (3602879701896397 / 2 ^ 55)"
  using fl_eq [of "- 56" "1 / 10" 7205759403792794] by (simp add: power_int_minus)

lemma fl_third: "fl (1 / 3) = Num (6004799503160661 / 2 ^ 54)"
  using fl_eq [of "- 54" "1 / 3" 6004799503160661] by (simp add: power_int_minus)

text \<open>The roundings met on the points (6,6), (0,0), (12,12).\<close>

lemma fl_6: "fl 6 = Num 6"
  using fl_eq [of "- 50" 6 6755399441055744] by (simp add: power_int_minus)

lemma fl_12: "fl 12 = Num 12"
  using fl_eq [of "- 49" 12 6755399441055744] by (simp add: power_int_minus)

lemma fl_36: "fl 36 = Num 36"
  using fl_eq [of "- 47" 36 5066549580791808] by (simp add: power_int_minus)

lemma fl_72: "fl 72 = Num 72"
  using fl_eq [of "- 46" 72 5066549580791808] by (simp add: power_int_minus)

lemma fl_144: "fl 144 = Num 144"
  using fl_eq [of "- 45" 144 5066549580791808] by (simp add: power_int_minus)

lemma fl_288: "fl 288 = Num 288"
  using fl_eq [of "- 44" 288 5066549580791808] by (simp add: power_int_minus)

lemma abs_nearI:
  fixes t c :: real
  assumes "c - 1 / 2 < t" and "t < c + 1 / 2"
  shows "\<bar>t - c\<bar> < 1 / 2"
  using assms by linarith

lemma scaled_bounds:
  fixes t c k :: real
  assumes "0 < k" and "(c - 1 / 2) / k < t" and "t < (c + 1 / 2) / k"
  shows "\<bar>t * k - c\<bar> < 1 / 2"
proof (rule abs_nearI)
  show "c - 1 / 2 < t * k" using assms(1,2) by (simp add: pos_divide_less_eq)
  show "t * k < c + 1 / 2" using assms(1,3) by (simp add: pos_less_divide_eq)
qed

lemma sqrt_72_bounds:
  "(4776788754394329 - 1 / 2) / 2 ^ 49 < sqrt 72" "sqrt 72 < (4776788754394329 + 1 / 2) / 2 ^ 49"
  by (rule real_less_rsqrt, simp add: power2_eq_square)
     (rule real_less_lsqrt, simp_all add: power2_eq_square)

lemma sqrt_288_bounds:
  "(4776788754394329 - 1 / 2) / 2 ^ 48 < sqrt 288" "sqrt 288 < (4776788754394329 + 1 / 2) / 2 ^ 48"
  by (rule real_less_rsqrt, simp add: power2_eq_square)
     (rule real_less_lsqrt, simp_all add: power2_eq_square)

lemma fl_sqrt_72: "fl (sqrt 72) = Num (4776788754394329 / 2 ^ 49)"
proof -
  have lo: "2 powi (- 49 + 52) \<le> \<bar>sqrt 72\<bar>"
    using real_le_rsqrt [of 8 72] by simp
  have "sqrt 72 < 16" by (rule real_less_lsqrt) simp_all
  then have hi: "\<bar>sqrt 72\<bar> < 2 powi (- 49 + 53)" by simp
  have "\<bar>sqrt 72 * 2 ^ 49 - 4776788754394329\<bar> < 1 / 2"
    using sqrt_72_bounds by (intro scaled_bounds) simp_all
  then have near: "\<bar>sqrt 72 / 2 powi (- 49) - of_int 4776788754394329\<bar> < 1 / 2"
    by (simp add: power_int_minus)
  have "fl (sqrt 72) = Num (of_int 4776788754394329 * 2 powi (- 49))"
    using lo hi _ near by (rule fl_eq) (simp_all add: power_int_minus)
  then show ?thesis by (simp add: power_int_minus field_simps)
qed

lemma fl_sqrt_288: "fl (sqrt 288) = Num (4776788754394329 / 2 ^ 48)"
proof -
  have lo: "2 powi (- 48 + 52) \<le> \<bar>sqrt 288\<bar>"
    using real_le_rsqrt [of 16 288] by simp
  have "sqrt 288 < 32" by (rule real_less_lsqrt) simp_all
  then have hi: "\<bar>sqrt 288\<bar> < 2 powi (- 48 + 53)" by simp
  have "\<bar>sqrt 288 * 2 ^ 48 - 4776788754394329\<bar> < 1 / 2"
    using sqrt_288_bounds by (intro scaled_bounds) simp_all
  then have near: "\<bar>sqrt 288 / 2 powi (- 48) - of_int 4776788754394329\<bar> < 1 / 2"
    by (simp add: power_int_minus)
  have "fl (sqrt 288) = Num (of_int 4776788754394329 * 2 powi (- 48))"
    using lo hi _ near by (rule fl_eq) (simp_all add: power_int_minus)
  then show ?thesis by (simp add: power_int_minus field_simps)
qed

lemma fl_product:
  "fl (4776788754394329 / 2 ^ 49 * (4776788754394329 / 2 ^ 48)) = Num (5066549580791807 / 2 ^ 45)"
  using fl_eq [of "- 45" "4776788754394329 / 2 ^ 49 * (4776788754394329 / 2 ^ 48)"
      5066549580791807]
  by (simp add: power_int_minus)

lemma fl_quotient:
  "fl (144 / (5066549580791807 / 2 ^ 45)) = Num (4503599627370497 / 2 ^ 52)"
  using fl_eq [of "- 52" "144 / (5066549580791807 / 2 ^ 45)" 4503599627370497]
  by (simp add: power_int_minus)

section \<open>The claims\<close>

text \<open>
  Claim C1, as amended.  On a stage that holds exactly three points,
  \<^verbatim>\<open>addPoint\<close> appends the fourth point, so that the stage then holds four, and
  leaves the stored centre and area as they were.  (There is no capacity check in
  \<^verbatim>\<open>addPoint\<close>; \<^verbatim>\<open>_check\<close> recomputes only at exactly three points.)
\<close>

theorem Stage_addPoint_fourth:
  assumes "length (points s) = 3"
  shows "\<exists>s'. Stage_addPoint h pt s = Some s' \<and>
              points s' = points s @ [pt] \<and> length (points s') = 4 \<and>
              center s' = center s \<and> area s' = area s"
  using assms by (simp add: Stage_addPoint_check Stage__check_other)

text \<open>The theorem at the complete stage of the scenario, with a fourth point (3,4).\<close>

theorem Stage_addPoint_fourth_witness:
  "length (points complete_stage) = 3 \<and>
   (\<exists>s'. Stage_addPoint store4 3 complete_stage = Some s' \<and>
         points s' = [0, 1, 2, 3] \<and> length (points s') = 4 \<and>
         center s' = Some \<lparr>x = 5, y = 5\<rparr> \<and> area s' = Some 100)"
proof -
  have len: "length (points complete_stage) = 3" by (simp add: complete_stage_def)
  show ?thesis
    using len Stage_addPoint_fourth [OF len, of store4 3] by (simp add: complete_stage_def)
qed

text \<open>
  The wording "the length remains 3" fails: on that stage the call returns a stage
  with four points.
\<close>

theorem Stage_addPoint_fourth_counterexample:
  "length (points complete_stage) = 3 \<and>
   map_option (length \<circ> points) (Stage_addPoint store4 3 complete_stage) = Some 4"
  by (simp add: Stage_addPoint_check Stage__check_other complete_stage_def)

text \<open>
  Claim C2 says that where the hit squares of several points overlap, the point added
  last is the one picked up.  The loop of \<^verbatim>\<open>_startMove\<close> does run from the last
  index down, but it does not stop at a hit, so every later hit overwrites the earlier
  one and the point added \<^emph>\<open>first\<close> is picked up (lemma
  \<open>app_startMove_first_added_wins\<close> above).  The session below places (0,0), (3,0)
  and (6,0) and presses the button on (3,0): all three points contain the pointer, and
  the handler records the first one, with offset (3,0), not the last one.
\<close>

theorem startMove_overlap_first_added:
  "\<exists>a. pressed_on_overlap = Some a \<and>
       heap a = [Point 0 0, Point 3 0, Point 6 0] \<and>
       points (stage a) = [0, 1, 2] \<and>
       Point_contains (heap a ! 0) 3 0 \<and>
       Point_contains (heap a ! 1) 3 0 \<and>
       Point_contains (heap a ! 2) 3 0 \<and>
       point a = Some 0 \<and> dx a = 3 \<and> dy a = 0 \<and>
       point a \<noteq> Some (last (points (stage a)))"
proof -
  from pressed_on_overlap_eval obtain c where eq:
    "pressed_on_overlap =
       Some \<lparr>canvas = canvas0, heap = [Point 0 0, Point 3 0, Point 6 0],
             stage = \<lparr>ctx = c, width = 600, height = 400, points = [0, 1, 2],
                      center = Some \<lparr>x = 3, y = 0\<rparr>, area = Some 0\<rparr>,
             point = Some 0, dx = 3, dy = 0,
             listeners = {Mousedown_startMove, Mouseup_stopMove, Mousemove_move}\<rparr>"
    by blast
  show ?thesis by (simp add: eq Point_contains_def Point_def)
qed

text \<open>
  Claim C3.  \<^verbatim>\<open>contains(x, y)\<close> is true exactly when \<open>\<bar>x - p.x\<bar> \<le> radius\<close> and
  \<open>\<bar>y - p.y\<bar> \<le> radius\<close>: the closed axis-aligned square of half-width \<open>radius\<close>
  around the point, and false everywhere outside it.
\<close>

theorem Point_contains_square:
  "Point_contains p qx qy \<longleftrightarrow> \<bar>qx - x p\<bar> \<le> radius p \<and> \<bar>qy - y p\<bar> \<le> radius p"
  unfolding Point_contains_def by (simp add: abs_le_iff) linarith

text \<open>
  Claim C4.  When the first and the second point coincide, or the third and the second,
  the area computed for the three points is 0 and the radius \<open>sqrt (area / \<pi>)\<close> of the
  circle is 0: \<^verbatim>\<open>_check\<close> on such a stage stores area 0 and draws an arc of radius 0
  around the centre.
\<close>

theorem coincident_points_area_zero:
  assumes "length (points s) = 3"
    and "coincide (h ! (points s ! 0)) (h ! (points s ! 1)) \<or>
         coincide (h ! (points s ! 2)) (h ! (points s ! 1))"
  shows "calculateArea_result (h ! (points s ! 0)) (h ! (points s ! 1)) (h ! (points s ! 2)) = 0 \<and>
         (\<exists>s'. Stage__check h s = Some s' \<and> area s' = Some 0 \<and> draw_r (area s') = 0 \<and>
               Arc ((x (h ! (points s ! 0)) + x (h ! (points s ! 2))) / 2)
                   ((y (h ! (points s ! 0)) + y (h ! (points s ! 2))) / 2)
                   0 0 (2 * pi) False \<in> set (ctx s'))"
proof -
  have z: "calculateArea_result (h ! (points s ! 0)) (h ! (points s ! 1)) (h ! (points s ! 2)) = 0"
    using assms(2) by (auto simp: calculateArea_result_cross coincide_def)
  then show ?thesis
    using assms(1) by (simp add: Stage__check_3 shapes_def draw_r_def)
qed

text \<open>The theorem at the store (1,2), (1,2), (5,5).\<close>

theorem coincident_points_area_zero_witness:
  "length (points three_refs) = 3 \<and>
   coincide (degenerate_store ! (points three_refs ! 0)) (degenerate_store ! (points three_refs ! 1)) \<and>
   calculateArea_result (Point 1 2) (Point 1 2) (Point 5 5) = 0 \<and>
   (\<exists>s'. Stage__check degenerate_store three_refs = Some s' \<and> area s' = Some 0 \<and>
         draw_r (area s') = 0 \<and> Arc 3 (7 / 2) 0 0 (2 * pi) False \<in> set (ctx s'))"
proof -
  have len: "length (points three_refs) = 3" by (simp add: three_refs_def)
  have co: "coincide (degenerate_store ! (points three_refs ! 0))
                     (degenerate_store ! (points three_refs ! 1))"
    by (simp add: three_refs_def degenerate_store_def coincide_def)
  show ?thesis
    using len co coincident_points_area_zero [OF len disjI1 [OF co]]
    by (simp add: three_refs_def degenerate_store_def Point_def)
qed

text \<open>
  Claim C5.  The area computation is unchanged when the first and the third point swap
  roles, for the value assigned to \<^verbatim>\<open>area\<close> and for \<^verbatim>\<open>_calculateArea\<close> run on a
  stage holding the references in either order.
\<close>

theorem calculateArea_swap:
  "calculateArea_result p1 p2 p3 = calculateArea_result p3 p2 p1 \<and>
   (\<exists>v. map_option area (Stage__calculateArea h (s\<lparr>points := [r1, r2, r3]\<rparr>)) = Some (Some v) \<and>
        map_option area (Stage__calculateArea h (s\<lparr>points := [r3, r2, r1]\<rparr>)) = Some (Some v))"
proof -
  have sw: "calculateArea_result q1 q2 q3 = calculateArea_result q3 q2 q1" for q1 q2 q3
    by (simp add: calculateArea_result_def calculateArea_vars_def Let_def mult.commute conj_commute)
  show ?thesis
    using sw [of p1 p2 p3] sw [of "h ! r1" "h ! r2" "h ! r3"]
    by (simp add: Stage__calculateArea_eq)
qed

text \<open>
  Claim C6.  With the fourth corner \<open>p4 = (p3.x - (p2.x - p1.x), p1.y + (p3.y - p2.y))\<close>
  that \<^verbatim>\<open>_draw\<close> computes, and the corners taken in the order p1, p2, p3, p4, the side
  from p1 to p2 is parallel to and as long as the side from p4 to p3, and the side from
  p2 to p3 is parallel to and as long as the side from p1 to p4; indeed the sides are
  equal as vectors.  This holds for any three points, degenerate or not.
\<close>

theorem draw_p4_parallelogram:
  "side p1 p2 = side (draw_p4 p1 p2 p3) p3 \<and>
   side p2 p3 = side p1 (draw_p4 p1 p2 p3) \<and>
   parallel (side p1 p2) (side (draw_p4 p1 p2 p3) p3) \<and>
   side_length (side p1 p2) = side_length (side (draw_p4 p1 p2 p3) p3) \<and>
   parallel (side p2 p3) (side p1 (draw_p4 p1 p2 p3)) \<and>
   side_length (side p2 p3) = side_length (side p1 (draw_p4 p1 p2 p3))"
  by (simp add: side_def draw_p4_def parallel_def side_length_def)

text \<open>
  Claim C7.  After clicks at (0,0), (10,0) and (10,10), in that order, on a fresh
  application: the fourth corner is (0,10), the centre is (5,5), the area is 100 and the
  radius of the circle is \<open>sqrt (100 / \<pi>)\<close>; the side lengths are 10 and 10 and the angle
  is \<open>\<pi> / 2\<close>.  The context has received exactly the calls of \<open>placed3_ctx\<close>.
\<close>

theorem three_points_scenario:
  "\<exists>a. placed3 = Some a \<and>
       heap a = [Point 0 0, Point 10 0, Point 10 10] \<and>
       points (stage a) = [0, 1, 2] \<and>
       draw_p4 (heap a ! 0) (heap a ! 1) (heap a ! 2) = \<lparr>x = 0, y = 10\<rparr> \<and>
       center (stage a) = Some \<lparr>x = 5, y = 5\<rparr> \<and>
       area (stage a) = Some 100 \<and>
       draw_r (area (stage a)) = sqrt (100 / pi) \<and>
       ctx (stage a) = placed3_ctx \<and>
       calculateArea_vars (heap a ! 0) (heap a ! 1) (heap a ! 2) = (10, 10, pi / 2)"
proof -
  have "sqrt 100 = sqrt (10\<^sup>2)" by simp
  then have s100: "sqrt 100 = 10" by (simp only: real_sqrt_abs)
  show ?thesis
    by (simp add: placed3_eval draw_p4_def Point_def draw_r_def calculateArea_vars_def s100
        arccos_0)
qed

text \<open>
  Claim C8 says that the area is never negative, because the angle always lies in
  \<open>[0, \<pi>]\<close>, so that the square root for the radius never gets a negative argument.  On
  the doubles of the program this fails on collinear points.  For the points (6,6),
  (0,0) and (12,12), in that order: \<^verbatim>\<open>d1\<close> is 8.48528137423857 and \<^verbatim>\<open>d2\<close> is
  16.97056274847714, their product rounds to 143.99999999999997, and the quotient
  \<^verbatim>\<open>144 / (d1 * d2)\<close> rounds to 1.0000000000000002.  \<^verbatim>\<open>Math.acos\<close> of a number above 1
  is \<^verbatim>\<open>NaN\<close>, so the angle, the area and the radius are \<^verbatim>\<open>NaN\<close>, whatever the engine's
  approximations of arc cosine and sine are.  The guard \<^verbatim>\<open>(d1 && d2)\<close> covers sides of
  length 0 only.  In exact arithmetic the area of these three points is 0.
\<close>

theorem collinear_area_NaN:
  "calculateArea_ieee_vars ac (Point 6 6) (Point 0 0) (Point 12 12) =
     (Num (4776788754394329 / 2 ^ 49), Num (4776788754394329 / 2 ^ 48), NaN) \<and>
   calculateArea_ieee ac sn (Point 6 6) (Point 0 0) (Point 12 12) = NaN \<and>
   draw_r_ieee (calculateArea_ieee ac sn (Point 6 6) (Point 0 0) (Point 12 12)) = NaN \<and>
   calculateArea_result (Point 6 6) (Point 0 0) (Point 12 12) = 0"
proof -
  define D1 :: real where "D1 = 4776788754394329 / 2 ^ 49"
  define D2 :: real where "D2 = 4776788754394329 / 2 ^ 48"
  define P :: real where "P = 5066549580791807 / 2 ^ 45"
  define Q :: real where "Q = 4503599627370497 / 2 ^ 52"
  have s1: "fl (sqrt 72) = Num D1" and s2: "fl (sqrt 288) = Num D2"
    and pr: "fl (D1 * D2) = Num P" and qu: "fl (144 / P) = Num Q"
    unfolding D1_def D2_def P_def Q_def
    by (rule fl_sqrt_72, rule fl_sqrt_288, rule fl_product, rule fl_quotient)
  have nz: "D1 \<noteq> 0" "D2 \<noteq> 0" "P \<noteq> 0" and big: "1 < Q"
    by (simp_all add: D1_def D2_def P_def Q_def)
  have vars: "calculateArea_ieee_vars ac (Point 6 6) (Point 0 0) (Point 12 12) =
     (Num D1, Num D2, NaN)"
    using nz big
    by (simp add: calculateArea_ieee_vars_def Point_def d_sub_def Let_def fl_6 fl_12 fl_36 fl_72
        fl_144 fl_288 s1 s2 pr qu)
  have "calculateArea_result (Point 6 6) (Point 0 0) (Point 12 12) = 0"
    by (simp add: calculateArea_result_cross Point_def)
  with vars show ?thesis
    unfolding D1_def D2_def
    by (simp add: calculateArea_ieee_def draw_r_ieee_def)
qed

text \<open>
  Claim C9, as amended.  After the three clicks at (0,0), (10,0) and (10,10), pressing
  the button on the second point and moving the pointer to (20,0) puts that point at
  (20,0) and redraws the stage in full, which recomputes centre and area: the area
  changes from 100 to 200, the centre stays at (5,5) (it is the midpoint of the first
  and the third point, neither of which moved), and the stage still holds the same three
  points.
\<close>

theorem drag_second_point:
  "\<exists>a b. placed3 = Some a \<and> dragged = Some b \<and>
         heap a = [Point 0 0, Point 10 0, Point 10 10] \<and>
         heap b = [Point 0 0, Point 20 0, Point 10 10] \<and>
         point b = Some 1 \<and>
         points (stage b) = points (stage a) \<and> length (points (stage b)) = 3 \<and>
         Stage_draw (heap b) (stage a) = Some (stage b) \<and>
         area (stage a) = Some 100 \<and> area (stage b) = Some 200 \<and>
         center (stage a) = Some \<lparr>x = 5, y = 5\<rparr> \<and> center (stage b) = Some \<lparr>x = 5, y = 5\<rparr>"
  by (simp add: placed3_eval dragged_eval Stage_draw_3 calculateArea_result_cross Point_def)

text \<open>
  The wording "the centre changes" fails: it is (5,5) before the drag and (5,5) after.
\<close>

theorem drag_second_point_counterexample:
  "map_option (center \<circ> stage) placed3 = Some (Some \<lparr>x = 5, y = 5\<rparr>) \<and>
   map_option (center \<circ> stage) dragged = Some (Some \<lparr>x = 5, y = 5\<rparr>)"
  by (simp add: placed3_eval dragged_eval)

text \<open>
  Claim C10.  \<^verbatim>\<open>addPoint\<close> always appends the point.  If the stage then holds
  exactly three points, centre and area are computed from them; for any other count,
  a fourth point included, the stored centre and area are what they were before the
  call.
\<close>

theorem Stage_addPoint_recompute_only_at_3:
  "\<exists>s'. Stage_addPoint h pt s = Some s' \<and>
        points s' = points s @ [pt] \<and>
        (if length (points s') = 3
         then center s' = Some \<lparr>x = (x (h ! (points s' ! 0)) + x (h ! (points s' ! 2))) / 2,
                                 y = (y (h ! (points s' ! 0)) + y (h ! (points s' ! 2))) / 2\<rparr> \<and>
              area s' = Some (calculateArea_result (h ! (points s' ! 0)) (h ! (points s' ! 1))
                                (h ! (points s' ! 2)))
         else center s' = center s \<and> area s' = area s)"
proof (cases "length (points s) = 2")
  case True
  then show ?thesis
    by (simp add: Stage_addPoint_check Stage__check_3)
next
  case False
  then show ?thesis
    by (simp add: Stage_addPoint_check Stage__check_other)
qed

end
